theory Spec2Isabelle
  imports Main "HOL-Library.Word" "HOL-Library.Monad_Syntax"
begin

unbundle bit_operations_syntax

section \<open>Data model\<close>

text \<open>
  The message-processing core of the JT/T 808 gateway: the register message
  \<open>Msg0100\<close> with its version-aware \<open>Decode\<close>/\<open>Encode\<close> (model/msg_0100.go) and
  the dispatcher \<open>Process\<close> with its handlers (msg_processor.go).

  Go strings are byte sequences and are modelled as \<open>string\<close> (a list of 8-bit
  characters); byte slices are lists of 8-bit words.  A function that can end in a
  run-time panic returns an \<open>outcome\<close>: \<open>Panicked\<close> or \<open>Returned v\<close>.
\<close>

type_synonym byte = "8 word"

type_synonym 'a outcome = "'a option"

abbreviation Panicked :: "'a outcome" where
  "Panicked \<equiv> None"

abbreviation Returned :: "'a \<Rightarrow> 'a outcome" where
  "Returned \<equiv> Some"

text \<open>
  The protocol revision carried by a header.  The source compares against the three
  named constants and has a fall-through branch for every other value.
\<close>

datatype VersionType = Version2019 | Version2013 | Version2011 | VersionUnknown

record MsgBodyAttr =
  BodyLength :: "16 word"
  VersionDesc :: VersionType

record MsgHeader =
  MsgID :: "16 word"
  Attr :: MsgBodyAttr
  PhoneNumber :: string
  SerialNumber :: "16 word"

record PacketData =
  Header :: MsgHeader
  Body :: "byte list"

text \<open>
  Errors are values.  \<open>Wrap e msg\<close> is what \<open>errors.Wrap\<close>/\<open>errors.Wrapf\<close> build;
  \<open>errors_Is\<close> walks that chain as \<open>errors.Is\<close> does.
\<close>

datatype error =
    ErrMsgIDNotSupportted
  | ErrNotAuthorized
  | ErrActiveClose
  | ErrDeviceNotFound
  | ErrDecodeMsg
  | ErrEncodeHeader
  | ErrExternal string
  | Wrap error string

fun errors_Is :: "error \<Rightarrow> error \<Rightarrow> bool" where
  "errors_Is (Wrap e msg) target = (Wrap e msg = target \<or> errors_Is e target)"
| "errors_Is e target = (e = target)"

section \<open>Frame codec\<close>

definition string_of_bytes :: "byte list \<Rightarrow> string" where
  "string_of_bytes bs = map (\<lambda>b. char_of (unat b)) bs"

definition bytes_of_string :: "string \<Rightarrow> byte list" where
  "bytes_of_string s = map of_char s"

text \<open>
  Modelled from the spec: the package \<open>codec/hex\<close> is not among the sources.  Section 4.A
  gives its contract: readers over a buffer with an explicit cursor, \<open>read_word\<close>
  a big-endian u16, \<open>read_string(n)\<close> the next \<open>n\<close> bytes, and a short read
  (cursor + n beyond the buffer) fatal for the packet.  The readers return no error
  value in the source, so the fatal short read is the outcome \<open>Panicked\<close>.  The
  cursor is a Go \<open>int\<close>.
\<close>

definition ReadByte :: "byte list \<Rightarrow> int \<Rightarrow> (byte \<times> int) outcome" where
  "ReadByte pkt idx =
     (if 0 \<le> idx \<and> idx + 1 \<le> int (length pkt)
      then Returned (pkt ! nat idx, idx + 1) else Panicked)"

definition ReadWord :: "byte list \<Rightarrow> int \<Rightarrow> (16 word \<times> int) outcome" where
  "ReadWord pkt idx =
     (if 0 \<le> idx \<and> idx + 2 \<le> int (length pkt)
      then Returned (push_bit 8 (ucast (pkt ! nat idx)) OR ucast (pkt ! nat (idx + 1)), idx + 2)
      else Panicked)"

definition ReadString :: "byte list \<Rightarrow> int \<Rightarrow> int \<Rightarrow> (string \<times> int) outcome" where
  "ReadString pkt idx n =
     (if 0 \<le> idx \<and> 0 \<le> n \<and> idx + n \<le> int (length pkt)
      then Returned (string_of_bytes (take (nat n) (drop (nat idx) pkt)), idx + n)
      else Panicked)"

text \<open>
  Modelled from the spec: \<open>read_gbk(n)\<close> is the next \<open>n\<close> bytes decoded from GBK to
  UTF-8.  The GBK table itself is a parameter (\<open>gbkDecode\<close>, \<open>gbkEncode\<close>).
\<close>

definition ReadGBK :: "(byte list \<Rightarrow> string) \<Rightarrow> byte list \<Rightarrow> int \<Rightarrow> int \<Rightarrow> (string \<times> int) outcome" where
  "ReadGBK gbkDecode pkt idx n =
     (if 0 \<le> idx \<and> 0 \<le> n \<and> idx + n \<le> int (length pkt)
      then Returned (gbkDecode (take (nat n) (drop (nat idx) pkt)), idx + n)
      else Panicked)"

text \<open>
  Modelled from the spec: the symmetric writers append to the buffer they are given.
\<close>

definition WriteByte :: "byte list \<Rightarrow> byte \<Rightarrow> byte list" where
  "WriteByte pkt b = pkt @ [b]"

definition WriteWord :: "byte list \<Rightarrow> 16 word \<Rightarrow> byte list" where
  "WriteWord pkt w = pkt @ [ucast (drop_bit 8 w), ucast w]"

definition WriteGBK :: "(string \<Rightarrow> byte list) \<Rightarrow> byte list \<Rightarrow> string \<Rightarrow> byte list" where
  "WriteGBK gbkEncode pkt s = pkt @ gbkEncode s"

text \<open>\<open>strings.TrimRight(s, "\x00")\<close>: drop every trailing NUL.\<close>

definition TrimRightNUL :: "string \<Rightarrow> string" where
  "TrimRightNUL s = rev (dropWhile (\<lambda>c. c = CHR 0x00) (rev s))"

section \<open>0x0100 terminal register: Decode and Encode\<close>

record MsgBase =
  Header :: MsgHeader

record Msg0100 = MsgBase +
  ProvinceID :: "16 word"
  CityID :: "16 word"
  ManufacturerID :: string
  DeviceMode :: string
  DeviceID :: string
  PlateColor :: byte
  PlateNumber :: string

text \<open>
  \<open>ver\<close> in \<open>Decode\<close> is a pointer.  It starts at the header's own field
  (\<open>&m.Header.Attr.VersionDesc\<close>) and, in the 2011 branch, is re-pointed at the
  element of a freshly allocated one-element slice (\<open>&[]VersionType{Version2011}[0]\<close>).
\<close>

datatype VersionRef = HeaderVersionDesc | FreshVersion VersionType

fun deref :: "MsgHeader \<Rightarrow> VersionRef \<Rightarrow> VersionType" where
  "deref h HeaderVersionDesc = VersionDesc (Attr h)"
| "deref h (FreshVersion v) = v"

text \<open>
  Lines 27--42 of msg\_0100.go: the field widths and the final value of the pointer
  \<open>ver\<close>; \<open>None\<close> is the branch that returns \<open>ErrDecodeMsg\<close>.
\<close>

definition fieldLens :: "MsgHeader \<Rightarrow> int \<Rightarrow> (int \<times> int \<times> int \<times> VersionRef) option" where
  "fieldLens h idx =
     (let ver = HeaderVersionDesc in
      if deref h ver = Version2019 then Some (11, 30, 30, ver)
      else if deref h ver = Version2013 then
        (let remainLen = uint (BodyLength (Attr h)) - idx in
         if remainLen > 5 + 20 + 7 + 1 then Some (5, 20, 7, ver)
         else Some (5, 8, 7, FreshVersion Version2011))
      else None)"

text \<open>
  \<open>m.Header\<close> and \<open>packet.Header\<close> are the same pointer, so the header returned in
  the message is the header of the packet after the call.  The result pairs the
  receiver as the call leaves it with the returned error.
\<close>

definition Decode :: "(byte list \<Rightarrow> string) \<Rightarrow> Msg0100 \<Rightarrow> PacketData \<Rightarrow> (Msg0100 \<times> error option) outcome" where
  "Decode gbkDecode m0 packet = do {
     let m = m0\<lparr>MsgBase.Header := PacketData.Header packet\<rparr>;
     let pkt = Body packet;
     (province, idx) \<leftarrow> ReadWord pkt 0;
     let m = m\<lparr>ProvinceID := province\<rparr>;
     (city, idx) \<leftarrow> ReadWord pkt idx;
     let m = m\<lparr>CityID := city\<rparr>;
     (case fieldLens (MsgBase.Header m) idx of
        None \<Rightarrow> Returned (m, Some ErrDecodeMsg)
      | Some (manuLen, modeLen, idLen, ver) \<Rightarrow> do {
          (manu, idx) \<leftarrow> ReadString pkt idx manuLen;
          let m = m\<lparr>ManufacturerID := TrimRightNUL manu\<rparr>;
          (mode, idx) \<leftarrow> ReadString pkt idx modeLen;
          let m = m\<lparr>DeviceMode := TrimRightNUL mode\<rparr>;
          (devid, idx) \<leftarrow> ReadString pkt idx idLen;
          let m = m\<lparr>DeviceID := TrimRightNUL devid\<rparr>;
          (color, idx) \<leftarrow> ReadByte pkt idx;
          let m = m\<lparr>PlateColor := color\<rparr>;
          (plate, idx) \<leftarrow> ReadGBK gbkDecode pkt idx (uint (BodyLength (Attr (MsgBase.Header m))) - idx);
          let m = m\<lparr>Msg0100.PlateNumber := plate\<rparr>;
          Returned (m, None)
        })
   }"

text \<open>The padding loop \<open>for i := 0; i < toFillLen; i++ { b = append(b, fillByte) }\<close>.\<close>

fun fill :: "nat \<Rightarrow> byte list \<Rightarrow> byte list" where
  "fill 0 b = b"
| "fill (Suc k) b = fill k (b @ [0])"

definition padField :: "int \<Rightarrow> string \<Rightarrow> byte list" where
  "padField fieldLen s =
     (let b = bytes_of_string s; toFillLen = fieldLen - int (length b)
      in fill (nat toFillLen) b)"

text \<open>Lines 55--92 of msg\_0100.go: the body, before \<open>writeHeader\<close> frames it.\<close>

definition EncodeBody :: "(string \<Rightarrow> byte list) \<Rightarrow> Msg0100 \<Rightarrow> error + byte list" where
  "EncodeBody gbkEncode m =
     (let pkt = WriteWord [] (ProvinceID m);
          pkt = WriteWord pkt (CityID m);
          msgVer = VersionDesc (Attr (MsgBase.Header m))
      in case (if msgVer = Version2019 then Some (11, 30, 30)
               else if msgVer = Version2013 then Some (5, 20, 7)
               else if msgVer = Version2011 then Some (5, 8, 7)
               else None) of
           None \<Rightarrow> Inl ErrEncodeHeader
         | Some (manuLen, modeLen, idLen) \<Rightarrow>
             (let pkt = pkt @ padField manuLen (ManufacturerID m);
                  pkt = pkt @ padField modeLen (DeviceMode m);
                  pkt = pkt @ padField idLen (DeviceID m);
                  pkt = WriteByte pkt (PlateColor m);
                  pkt = WriteGBK gbkEncode pkt (Msg0100.PlateNumber m)
              in Inr pkt))"

text \<open>
  \<open>Encode\<close> hands the body to \<open>writeHeader\<close>, which is not among the sources and
  is a parameter here.
\<close>

definition Encode :: "(string \<Rightarrow> byte list) \<Rightarrow> (Msg0100 \<Rightarrow> byte list \<Rightarrow> byte list \<times> error option)
    \<Rightarrow> Msg0100 \<Rightarrow> byte list \<times> error option" where
  "Encode gbkEncode writeHeader m =
     (case EncodeBody gbkEncode m of
        Inl e \<Rightarrow> ([], Some e)
      | Inr pkt \<Rightarrow> writeHeader m pkt)"

section \<open>Devices, sessions and the shared services\<close>

datatype DeviceStatus = DeviceStatusOffline | DeviceStatusOnline | DeviceStatusSleeping

datatype TransProtoType = TransProtoTCP | TransProtoUDP

text \<open>
  Modelled from the spec: the declaration of \<open>model.Session\<close> is not among the sources.
  Section 3 gives it as the per-connection identity: an id, the transport kind and an
  opaque connection handle.  \<open>GetTransProto\<close> reads the transport kind.
\<close>

record Session =
  ID :: string
  TransProto :: TransProtoType
  Conn :: nat

definition GetTransProto :: "Session \<Rightarrow> TransProtoType" where
  "GetTransProto session = Session.TransProto session"

text \<open>
  The request context, as far as the code reads it: the value stored under
  \<open>model.SessionCtxKey{}\<close>.  \<open>None\<close> is a context without a session, on which
  the unchecked type assertion \<open>ctx.Value(...).(*model.Session)\<close> panics.
\<close>

type_synonym Context = "Session option"

text \<open>
  The fields of \<open>model.Device\<close> that the handlers read or write.  \<open>Keepalive\<close> is a
  \<open>time.Duration\<close>: a count of nanoseconds.
\<close>

record Device =
  ID :: string
  PlateNumber :: string
  PhoneNumber :: string
  SessionID :: string
  TransProto :: TransProtoType
  Conn :: nat
  Keepalive :: int
  Status :: DeviceStatus
  IMEI :: string
  SoftwareVersion :: string

definition Second :: int where
  "Second = 1000000000"

definition Minute :: int where
  "Minute = 60 * Second"

text \<open>
  Modelled from the spec: the decoded location fix.  \<open>model.GISMeta\<close>, \<open>NewGISMeta\<close>
  and its \<open>Decode\<close> are not among the sources.  Section 4.H: the 32-bit status-sign
  word is decoded into the fix, the ACC flag being bit 0; the word itself is kept for
  the other flags.
\<close>

record GISMeta =
  ACCStatus :: byte
  StatusBits :: "32 word"

definition NewGISMeta :: GISMeta where
  "NewGISMeta = \<lparr>ACCStatus = 0, StatusBits = 0\<rparr>"

definition GISMeta_Decode :: "GISMeta \<Rightarrow> 32 word \<Rightarrow> GISMeta" where
  "GISMeta_Decode gis statusSign = gis\<lparr>ACCStatus := ucast (statusSign AND 1), StatusBits := statusSign\<rparr>"

text \<open>
  The process-wide singletons the handlers reach through \<open>storage.GetDeviceCache()\<close>,
  \<open>storage.GetGisCache()\<close> and \<open>NewKeepaliveTimer()\<close>, as one explicit state:
  the device registry keyed by phone number, its plate index, the set of phone numbers
  with a keep-alive entry, and the GIS rings by key.
\<close>

record Services =
  devices :: "string \<rightharpoonup> Device"
  plates :: "string \<rightharpoonup> string"
  timers :: "string set"
  rings :: "string \<rightharpoonup> GISMeta list"

definition emptyServices :: Services where
  "emptyServices = \<lparr>devices = Map.empty, plates = Map.empty, timers = {}, rings = Map.empty\<rparr>"

text \<open>
  Modelled from the spec: the package \<open>storage\<close> is not among the sources.  Section 4.D:
  \<open>get_by_phone\<close> returns the device or \<open>DeviceNotFound\<close>; \<open>has_phone\<close> and
  \<open>has_plate\<close> are membership tests; \<open>put\<close> replaces an existing device and updates
  the plate index; \<open>delete_by_phone\<close> removes the device and its plate entry and
  tolerates an absent device.  The getter returns Go's pair of a pointer and an error.
\<close>

definition GetDeviceByPhone :: "Services \<Rightarrow> string \<Rightarrow> Device option \<times> error option" where
  "GetDeviceByPhone st phone =
     (case devices st phone of
        None \<Rightarrow> (None, Some ErrDeviceNotFound)
      | Some d \<Rightarrow> (Some d, None))"

definition HasPhone :: "Services \<Rightarrow> string \<Rightarrow> bool" where
  "HasPhone st phone = (devices st phone \<noteq> None)"

definition HasPlate :: "Services \<Rightarrow> string \<Rightarrow> bool" where
  "HasPlate st plate = (plates st plate \<noteq> None)"

definition CacheDevice :: "Services \<Rightarrow> Device \<Rightarrow> Services" where
  "CacheDevice st d =
     st\<lparr>devices := (devices st)(Device.PhoneNumber d \<mapsto> d),
        plates := (plates st)(Device.PlateNumber d \<mapsto> Device.PhoneNumber d)\<rparr>"

definition DelDeviceByPhone :: "Services \<Rightarrow> string \<Rightarrow> Services" where
  "DelDeviceByPhone st phone =
     (case devices st phone of
        None \<Rightarrow> st
      | Some d \<Rightarrow> st\<lparr>devices := (devices st)(phone := None),
                      plates := (plates st)(Device.PlateNumber d := None)\<rparr>)"

text \<open>
  Modelled from the spec: the keep-alive timer is not among the sources.  Section 4.F:
  \<open>register(phone)\<close> creates the entry of a phone number and \<open>cancel(phone)\<close>
  removes it, idempotently.  Deadlines are real time and are not part of this state.
\<close>

definition Register :: "Services \<Rightarrow> string \<Rightarrow> Services" where
  "Register st phone = st\<lparr>timers := insert phone (timers st)\<rparr>"

definition Cancel :: "Services \<Rightarrow> string \<Rightarrow> Services" where
  "Cancel st phone = st\<lparr>timers := timers st - {phone}\<rparr>"

text \<open>
  Modelled from the spec: the GIS cache and its ring buffer are not among the sources.
  Sections 4.E and 6: one ring per key with a fixed capacity (128 by default);
  \<open>write\<close> overwrites the oldest entry when the ring is full.  The getter hands out
  the ring of a key, an empty one when the key has none yet, and the handler uses it
  without a nil check.
\<close>

definition gisRingCapacity :: nat where
  "gisRingCapacity = 128"

definition GetGisRingByPhone :: "Services \<Rightarrow> string \<Rightarrow> GISMeta list" where
  "GetGisRingByPhone st key = (case rings st key of None \<Rightarrow> [] | Some rb \<Rightarrow> rb)"

definition RingWrite :: "GISMeta list \<Rightarrow> GISMeta \<Rightarrow> GISMeta list" where
  "RingWrite rb gis = (if length rb < gisRingCapacity then rb @ [gis] else tl rb @ [gis])"

section \<open>Messages\<close>

text \<open>
  The declarations of the other message types are not among the sources; the records
  hold the fields the dispatcher and the handlers use.  The zero value of a result
  code is success.
\<close>

datatype ResultCodeType = ResultSuccess | ResultFail | ResultOther byte

datatype RegisterResultType = ResSuccess | ResCarAlreadyRegister | ResDeviceAlreadyRegister | ResOther byte

type_synonym Msg0001 = MsgBase

type_synonym Msg0002 = MsgBase

type_synonym Msg0003 = MsgBase

record Msg0102 = MsgBase +
  AuthCode :: string
  IMEI :: string
  SoftwareVersion :: string

record Msg0200 = MsgBase +
  StatusSign :: "32 word"

record Msg8001 = MsgBase +
  Result :: ResultCodeType

record Msg8100 = MsgBase +
  Result :: RegisterResultType
  AuthCode :: string

datatype JT808Msg =
    M0001 Msg0001
  | M0002 Msg0002
  | M0003 Msg0003
  | M0100 Msg0100
  | M0102 Msg0102
  | M0200 Msg0200
  | M8001 Msg8001
  | M8100 Msg8100

fun GetHeader :: "JT808Msg \<Rightarrow> MsgHeader" where
  "GetHeader (M0001 m) = MsgBase.Header m"
| "GetHeader (M0002 m) = MsgBase.Header m"
| "GetHeader (M0003 m) = MsgBase.Header m"
| "GetHeader (M0100 m) = MsgBase.Header m"
| "GetHeader (M0102 m) = MsgBase.Header m"
| "GetHeader (M0200 m) = MsgBase.Header m"
| "GetHeader (M8001 m) = MsgBase.Header m"
| "GetHeader (M8100 m) = MsgBase.Header m"

record ProcessData =
  Incoming :: JT808Msg
  Outgoing :: "JT808Msg option"

text \<open>
  A freshly constructed message (\<open>&model.Msg0100{}\<close>) has a nil header and zero
  fields.  Every decoder starts by storing the packet's header, so the nil header is
  represented by a zero header that is never read.
\<close>

definition zeroHeader :: MsgHeader where
  "zeroHeader = \<lparr>MsgID = 0, Attr = \<lparr>BodyLength = 0, VersionDesc = VersionUnknown\<rparr>,
                  PhoneNumber = [], SerialNumber = 0\<rparr>"

definition zeroBase :: MsgBase where
  "zeroBase = \<lparr>Header = zeroHeader\<rparr>"

definition zero0100 :: Msg0100 where
  "zero0100 = \<lparr>Header = zeroHeader, ProvinceID = 0, CityID = 0, ManufacturerID = [],
                DeviceMode = [], DeviceID = [], PlateColor = 0, Msg0100.PlateNumber = []\<rparr>"

definition zero0102 :: Msg0102 where
  "zero0102 = \<lparr>Header = zeroHeader, Msg0102.AuthCode = [], Msg0102.IMEI = [],
                Msg0102.SoftwareVersion = []\<rparr>"

definition zero0200 :: Msg0200 where
  "zero0200 = \<lparr>Header = zeroHeader, StatusSign = 0\<rparr>"

definition zero8001 :: Msg8001 where
  "zero8001 = \<lparr>Header = zeroHeader, Msg8001.Result = ResultSuccess\<rparr>"

definition zero8100 :: Msg8100 where
  "zero8100 = \<lparr>Header = zeroHeader, Msg8100.Result = ResSuccess, Msg8100.AuthCode = []\<rparr>"

section \<open>What the dispatcher takes from outside the two source files\<close>

text \<open>
  The decoders and reply constructors of the message types other than \<open>Msg0100\<close>
  are not among the sources, nor are the hash, the GBK table, the logger's level and
  the JSON serializer.  They are parameters of the model, collected in one record.
  \<open>decode\<close> fills a freshly constructed message from a packet; \<open>genOutgoing\<close>
  is \<open>GenOutgoing\<close> on a receiver of that type.
\<close>

record 'm MsgOps =
  decode :: "PacketData \<Rightarrow> 'm \<times> error option"
  genOutgoing :: "'m \<Rightarrow> JT808Msg \<Rightarrow> 'm \<times> error option"

record Deps =
  debugLevel :: bool
  jsonMarshal :: "JT808Msg \<Rightarrow> error option"
  FNV32 :: "string \<Rightarrow> 32 word"
  gbkDecode :: "byte list \<Rightarrow> string"
  ops0001 :: "Msg0001 MsgOps"
  ops0002 :: "Msg0002 MsgOps"
  ops0003 :: "Msg0003 MsgOps"
  ops0102 :: "Msg0102 MsgOps"
  ops0200 :: "Msg0200 MsgOps"
  ops8001 :: "Msg8001 MsgOps"
  ops8100 :: "Msg8100 MsgOps"

text \<open>The methods \<open>Decode\<close> and \<open>GenOutgoing\<close> of the interface \<open>JT808Msg\<close>.\<close>

fun msgDecode :: "Deps \<Rightarrow> JT808Msg \<Rightarrow> PacketData \<Rightarrow> (JT808Msg \<times> error option) outcome" where
  "msgDecode deps (M0001 m) pkt = Returned (map_prod M0001 id (decode (ops0001 deps) pkt))"
| "msgDecode deps (M0002 m) pkt = Returned (map_prod M0002 id (decode (ops0002 deps) pkt))"
| "msgDecode deps (M0003 m) pkt = Returned (map_prod M0003 id (decode (ops0003 deps) pkt))"
| "msgDecode deps (M0100 m) pkt = map_option (map_prod M0100 id) (Decode (gbkDecode deps) m pkt)"
| "msgDecode deps (M0102 m) pkt = Returned (map_prod M0102 id (decode (ops0102 deps) pkt))"
| "msgDecode deps (M0200 m) pkt = Returned (map_prod M0200 id (decode (ops0200 deps) pkt))"
| "msgDecode deps (M8001 m) pkt = Returned (map_prod M8001 id (decode (ops8001 deps) pkt))"
| "msgDecode deps (M8100 m) pkt = Returned (map_prod M8100 id (decode (ops8100 deps) pkt))"

fun msgGenOutgoing :: "Deps \<Rightarrow> JT808Msg \<Rightarrow> JT808Msg \<Rightarrow> JT808Msg \<times> error option" where
  "msgGenOutgoing deps (M0001 m) incoming = map_prod M0001 id (genOutgoing (ops0001 deps) m incoming)"
| "msgGenOutgoing deps (M0002 m) incoming = map_prod M0002 id (genOutgoing (ops0002 deps) m incoming)"
| "msgGenOutgoing deps (M0003 m) incoming = map_prod M0003 id (genOutgoing (ops0003 deps) m incoming)"
| "msgGenOutgoing deps (M0100 m) incoming = (M0100 m, None)"
| "msgGenOutgoing deps (M0102 m) incoming = map_prod M0102 id (genOutgoing (ops0102 deps) m incoming)"
| "msgGenOutgoing deps (M0200 m) incoming = map_prod M0200 id (genOutgoing (ops0200 deps) m incoming)"
| "msgGenOutgoing deps (M8001 m) incoming = map_prod M8001 id (genOutgoing (ops8001 deps) m incoming)"
| "msgGenOutgoing deps (M8100 m) incoming = map_prod M8100 id (genOutgoing (ops8100 deps) m incoming)"

text \<open>\<open>errors.Is\<close> on a possibly nil error, and \<open>errors.Wrap\<close>, which keeps nil.\<close>

definition errIs :: "error option \<Rightarrow> error \<Rightarrow> bool" where
  "errIs err target = (case err of None \<Rightarrow> False | Some e \<Rightarrow> errors_Is e target)"

definition Wrapf :: "error option \<Rightarrow> string \<Rightarrow> error option" where
  "Wrapf err msg = map_option (\<lambda>e. Wrap e msg) err"

section \<open>The authentication code\<close>

text \<open>
  \<open>strconv.Itoa\<close>: the decimal digits of an \<open>int\<close>, each taken from the digit table,
  with a sign when negative.
\<close>

definition digitTable :: string where
  "digitTable = ''0123456789''"

fun digits :: "nat \<Rightarrow> string" where
  "digits n = (if n < 10 then [digitTable ! n] else digits (n div 10) @ [digitTable ! (n mod 10)])"

declare digits.simps [simp del]

definition Itoa :: "int \<Rightarrow> string" where
  "Itoa i = (if i < 0 then CHR ''-'' # digits (nat (- i)) else digits (nat i))"

text \<open>
  \<open>genAuthCode\<close>: the builder receives the device id, \<open>'_'\<close>, the bytes of the plate
  number, \<open>'_'\<close> and the bytes of the phone number; \<open>int(...)\<close> of the 32-bit hash
  is its unsigned value.
\<close>

definition genAuthCode :: "Deps \<Rightarrow> Device \<Rightarrow> string" where
  "genAuthCode deps d =
     (let splitByte = CHR ''_'';
          code = Device.ID d @ [splitByte] @ Device.PlateNumber d @ [splitByte] @ Device.PhoneNumber d
      in Itoa (uint (FNV32 deps code)))"

section \<open>Handlers\<close>

text \<open>
  A handler reads and writes the shared services and the outgoing message held by the
  process data, and returns an error or nil.  An unchecked type assertion on a message
  of another type, and a call through a nil pointer, panic.
\<close>

type_synonym handler =
  "Deps \<Rightarrow> Context \<Rightarrow> Services \<Rightarrow> ProcessData \<Rightarrow> (Services \<times> ProcessData \<times> error option) outcome"

definition processMsg0002 :: handler where
  "processMsg0002 deps ctx st data =
     (let phone = MsgHeader.PhoneNumber (GetHeader (Incoming data));
          (device, err) = GetDeviceByPhone st phone
      in if errIs err ErrDeviceNotFound
         then Returned (st, data, Wrapf err (''Fail to find device cache, phoneNumber='' @ phone))
         else (case device of
                 None \<Rightarrow> Panicked
               | Some d \<Rightarrow> Returned (CacheDevice st d, data, None)))"

definition processMsg0003 :: handler where
  "processMsg0003 deps ctx st data =
     (let phone = MsgHeader.PhoneNumber (GetHeader (Incoming data));
          (device, err) = GetDeviceByPhone st phone
      in if errIs err ErrDeviceNotFound
         then Returned (st, data, Wrapf err (''Fail to find device cache, phoneNumber='' @ phone))
         else (case device of
                 None \<Rightarrow> Panicked
               | Some d \<Rightarrow>
                   (let st = Cancel st (Device.PhoneNumber d);
                        st = DelDeviceByPhone st (Device.PhoneNumber d)
                    in Returned (st, data, None))))"

definition processMsg0100 :: handler where
  "processMsg0100 deps ctx st data =
     (case Incoming data of
        M0100 msg \<Rightarrow>
          (case Outgoing data of
             Some (M8100 out) \<Rightarrow>
               if HasPlate st (Msg0100.PlateNumber msg)
               then Returned (st, data\<lparr>Outgoing := Some (M8100 (out\<lparr>Msg8100.Result := ResCarAlreadyRegister\<rparr>))\<rparr>, None)
               else if HasPhone st (MsgHeader.PhoneNumber (MsgBase.Header msg))
               then Returned (st, data\<lparr>Outgoing := Some (M8100 (out\<lparr>Msg8100.Result := ResDeviceAlreadyRegister\<rparr>))\<rparr>, None)
               else (case ctx of
                       None \<Rightarrow> Panicked
                     | Some session \<Rightarrow>
                         (let device = \<lparr>Device.ID = DeviceID msg,
                                        Device.PlateNumber = Msg0100.PlateNumber msg,
                                        Device.PhoneNumber = MsgHeader.PhoneNumber (MsgBase.Header msg),
                                        Device.SessionID = Session.ID session,
                                        Device.TransProto = GetTransProto session,
                                        Device.Conn = Session.Conn session,
                                        Device.Keepalive = Minute * 1,
                                        Device.Status = DeviceStatusOffline,
                                        Device.IMEI = [],
                                        Device.SoftwareVersion = []\<rparr>;
                              out = out\<lparr>Msg8100.AuthCode := genAuthCode deps device\<rparr>;
                              st = CacheDevice st device;
                              st = Register st (Device.PhoneNumber device)
                          in Returned (st, data\<lparr>Outgoing := Some (M8100 out)\<rparr>, None)))
           | _ \<Rightarrow> Panicked)
      | _ \<Rightarrow> Panicked)"

definition processMsg0102 :: handler where
  "processMsg0102 deps ctx st data =
     (case Incoming data of
        M0102 msg \<Rightarrow>
          (let phone = MsgHeader.PhoneNumber (MsgBase.Header msg);
               (device, err) = GetDeviceByPhone st phone
           in if errIs err ErrDeviceNotFound
              then Returned (st, data, Wrapf err (''Fail to find device cache, phoneNumber='' @ phone))
              else (case Outgoing data of
                      Some (M8001 out) \<Rightarrow>
                        (case device of
                           None \<Rightarrow> Panicked
                         | Some d \<Rightarrow>
                             if Msg0102.AuthCode msg \<noteq> genAuthCode deps d
                             then (let out = out\<lparr>Msg8001.Result := ResultFail\<rparr>;
                                       st = Cancel st (Device.PhoneNumber d);
                                       st = DelDeviceByPhone st (Device.PhoneNumber d)
                                   in Returned (st, data\<lparr>Outgoing := Some (M8001 out)\<rparr>, None))
                             else (let d = d\<lparr>Device.Status := DeviceStatusOnline\<rparr>;
                                       st = CacheDevice st d
                                   in Returned (st, data, None)))
                    | _ \<Rightarrow> Panicked))
      | _ \<Rightarrow> Panicked)"

definition handleMsg0200 :: handler where
  "handleMsg0200 deps ctx st data =
     (case Incoming data of
        M0200 msg \<Rightarrow>
          (let phone = MsgHeader.PhoneNumber (MsgBase.Header msg);
               (device, err) = GetDeviceByPhone st phone
           in if errIs err ErrDeviceNotFound
              then Returned (st, data, Wrapf err (''Fail to find device cache, phoneNumber='' @ phone))
              else (case device of
                      None \<Rightarrow> Panicked
                    | Some d \<Rightarrow>
                        (let gis = GISMeta_Decode NewGISMeta (StatusSign msg);
                             (d, st) = (if ACCStatus gis = 0
                                        then (let d = d\<lparr>Device.Status := DeviceStatusSleeping\<rparr>
                                              in (d, CacheDevice st d))
                                        else (d, st));
                             rb = GetGisRingByPhone st (Device.ID d);
                             st = st\<lparr>rings := (rings st)(Device.ID d \<mapsto> RingWrite rb gis)\<rparr>
                         in Returned (st, data, None))))
      | _ \<Rightarrow> Panicked)"

definition processMsg8100 :: handler where
  "processMsg8100 deps ctx st data =
     (case Incoming data of
        M8100 msg \<Rightarrow>
          (case Outgoing data of
             Some (M0102 out) \<Rightarrow>
               (let (device, err) = GetDeviceByPhone st (MsgHeader.PhoneNumber (MsgBase.Header msg))
                in if errIs err ErrDeviceNotFound
                   then Returned (st, data, Some ErrActiveClose)
                   else (case device of
                           None \<Rightarrow> Panicked
                         | Some d \<Rightarrow>
                             (let out = out\<lparr>Msg0102.AuthCode := genAuthCode deps d\<rparr>;
                                  out = out\<lparr>Msg0102.IMEI := Device.IMEI d\<rparr>;
                                  out = out\<lparr>Msg0102.SoftwareVersion := Device.SoftwareVersion d\<rparr>;
                                  (out, err) = genOutgoing (ops0102 deps) out (M8100 msg)
                              in Returned (st, data\<lparr>Outgoing := Some (M0102 out)\<rparr>,
                                           Wrapf err ''Fail to generate msg 8100''))))
           | _ \<Rightarrow> Panicked)
      | _ \<Rightarrow> Panicked)"

section \<open>The dispatch table and the dispatcher\<close>

text \<open>
  An \<open>action\<close> holds two function values, either of which may be nil (\<open>None\<close>).
  The table maps a message id to a pointer to an action; a Go map returns the zero
  value, a nil pointer, for an id that is not a key.
\<close>

record action =
  genData :: "(unit \<Rightarrow> ProcessData) option"
  process :: "handler option"

definition initProcessOption :: "16 word \<rightharpoonup> action" where
  "initProcessOption =
     [0x0001 \<mapsto> \<lparr>genData = Some (\<lambda>_. \<lparr>Incoming = M0001 zeroBase, Outgoing = None\<rparr>),
                  process = None\<rparr>,
      0x0002 \<mapsto> \<lparr>genData = Some (\<lambda>_. \<lparr>Incoming = M0002 zeroBase, Outgoing = Some (M8001 zero8001)\<rparr>),
                  process = Some processMsg0002\<rparr>,
      0x0003 \<mapsto> \<lparr>genData = Some (\<lambda>_. \<lparr>Incoming = M0003 zeroBase, Outgoing = Some (M8001 zero8001)\<rparr>),
                  process = Some processMsg0003\<rparr>,
      0x0100 \<mapsto> \<lparr>genData = Some (\<lambda>_. \<lparr>Incoming = M0100 zero0100, Outgoing = Some (M8100 zero8100)\<rparr>),
                  process = Some processMsg0100\<rparr>,
      0x0102 \<mapsto> \<lparr>genData = Some (\<lambda>_. \<lparr>Incoming = M0102 zero0102, Outgoing = Some (M8001 zero8001)\<rparr>),
                  process = Some processMsg0102\<rparr>,
      0x0200 \<mapsto> \<lparr>genData = Some (\<lambda>_. \<lparr>Incoming = M0200 zero0200, Outgoing = Some (M8001 zero8001)\<rparr>),
                  process = Some handleMsg0200\<rparr>,
      0x8001 \<mapsto> \<lparr>genData = Some (\<lambda>_. \<lparr>Incoming = M8001 zero8001, Outgoing = None\<rparr>),
                  process = None\<rparr>,
      0x8100 \<mapsto> \<lparr>genData = Some (\<lambda>_. \<lparr>Incoming = M8100 zero8100, Outgoing = Some (M0102 zero0102)\<rparr>),
                  process = Some processMsg8100\<rparr>]"

record JT808MsgProcessor =
  options :: "16 word \<rightharpoonup> action"

definition NewJT808MsgProcessor :: JT808MsgProcessor where
  "NewJT808MsgProcessor = \<lparr>options = initProcessOption\<rparr>"

text \<open>
  The result of \<open>Process\<close>: the services as the call leaves them, the returned
  process data (nil is \<open>None\<close>) and the returned error (nil is \<open>None\<close>).
\<close>

type_synonym processResult = "(Services \<times> ProcessData option \<times> error option) outcome"

text \<open>
  The deferred logger of the outgoing message runs when \<open>Process\<close> leaves, also
  after a panic of the handler; at debug level it asserts the session of the context.
\<close>

definition deferredLog :: "Deps \<Rightarrow> Context \<Rightarrow> processResult \<Rightarrow> processResult" where
  "deferredLog deps ctx r = (if debugLevel deps \<and> ctx = None then Panicked else r)"

text \<open>Lines 137--165 of msg\_processor.go, after the incoming message is decoded and logged.\<close>

definition ProcessOutgoing :: "JT808MsgProcessor \<Rightarrow> Deps \<Rightarrow> Context \<Rightarrow> Services \<Rightarrow> 16 word
    \<Rightarrow> ProcessData \<Rightarrow> processResult" where
  "ProcessOutgoing mp deps ctx st msgID data =
     (case Outgoing data of
        None \<Rightarrow> Returned (st, None, None)
      | Some out \<Rightarrow>
          (let (out, err) = msgGenOutgoing deps out (Incoming data);
               data = data\<lparr>Outgoing := Some out\<rparr>
           in if err \<noteq> None
              then Returned (st, Some data, Wrapf err ''Fail to generate outgoing msg'')
              else deferredLog deps ctx
                     (case options mp msgID of
                        None \<Rightarrow> Panicked
                      | Some act \<Rightarrow>
                          (case process act of
                             None \<Rightarrow> Panicked
                           | Some processFunc \<Rightarrow>
                               (case processFunc deps ctx st data of
                                  None \<Rightarrow> Panicked
                                | Some (st, data, err) \<Rightarrow>
                                    if err \<noteq> None
                                    then Returned (st, Some data, Wrapf err ''Fail to process data'')
                                    else Returned (st, Some data, None))))))"

text \<open>
  \<open>Process\<close>.  \<open>mp.options[msgID].genData\<close> reads a field through the pointer the
  map returns: for an id that is not a key the pointer is nil and the read panics,
  before the test \<open>genDataFn == nil\<close> is reached.
\<close>

definition Process :: "JT808MsgProcessor \<Rightarrow> Deps \<Rightarrow> Context \<Rightarrow> Services \<Rightarrow> PacketData \<Rightarrow> processResult" where
  "Process mp deps ctx st pkt =
     (let msgID = MsgID (PacketData.Header pkt) in
      case options mp msgID of
        None \<Rightarrow> Panicked
      | Some act \<Rightarrow>
          (case genData act of
             None \<Rightarrow> Returned (st, None, Some ErrMsgIDNotSupportted)
           | Some genDataFn \<Rightarrow>
               (let data = genDataFn () in
                case msgDecode deps (Incoming data) pkt of
                  None \<Rightarrow> Panicked
                | Some (msg, err) \<Rightarrow>
                    if err \<noteq> None
                    then Returned (st, None, Wrapf err ''Fail to decode packet to jtmsg'')
                    else (let data = data\<lparr>Incoming := msg\<rparr> in
                          if debugLevel deps
                          then (case ctx of
                                  None \<Rightarrow> Panicked
                                | Some session \<Rightarrow>
                                    (case jsonMarshal deps msg of
                                       Some e \<Rightarrow> Returned (st, None, Some (Wrap e ''Fail to serialize incoming msg to json''))
                                     | None \<Rightarrow> ProcessOutgoing mp deps ctx st msgID data))
                          else ProcessOutgoing mp deps ctx st msgID data))))"

section \<open>Sequences of handler invocations\<close>

text \<open>
  The services after a sequence of completed handler invocations, each given by the
  message id under which the dispatch table holds the handler, the context and the
  process data.  \<open>None\<close> when an id has no handler or an invocation panics.
\<close>

fun runHandlers :: "Deps \<Rightarrow> Services \<Rightarrow> (16 word \<times> Context \<times> ProcessData) list \<Rightarrow> Services option" where
  "runHandlers deps st [] = Some st"
| "runHandlers deps st ((msgID, ctx, data) # calls) =
     (case options NewJT808MsgProcessor msgID of
        None \<Rightarrow> None
      | Some act \<Rightarrow>
          (case process act of
             None \<Rightarrow> None
           | Some processFunc \<Rightarrow>
               (case processFunc deps ctx st data of
                  None \<Rightarrow> None
                | Some (st', data', err) \<Rightarrow> runHandlers deps st' calls)))"

text \<open>Every device is stored under its own phone number.\<close>

definition keyed :: "Services \<Rightarrow> bool" where
  "keyed st = (\<forall>p d. devices st p = Some d \<longrightarrow> Device.PhoneNumber d = p)"

section \<open>Concrete instances\<close>

text \<open>
  Modelled from the spec: the package \<open>codec/hash\<close> is not among the sources.  Section 4.H
  names the hash as FNV-32 of the bytes of the string; this is the 32-bit FNV-1a
  (offset basis 2166136261, prime 16777619).  The handlers are verified for every
  hash function; this one instantiates the parameter on concrete inputs.
\<close>

definition fnv32a :: "string \<Rightarrow> 32 word" where
  "fnv32a s = foldl (\<lambda>h c. (h XOR of_char c) * 16777619) 2166136261 s"

text \<open>
  An instance of the parameters, used to run the model on concrete packets: debug
  logging off, GBK restricted to 7-bit text (where it is the identity on bytes),
  decoders that keep the packet's header (0x0102 takes the body as the
  authentication code, 0x0200 the status word at offset 4), and reply constructors
  that copy the incoming header under the reply's message id.
\<close>

definition replyHeader :: "16 word \<Rightarrow> JT808Msg \<Rightarrow> MsgHeader" where
  "replyHeader msgID incoming = (GetHeader incoming)\<lparr>MsgID := msgID\<rparr>"

definition headerOnlyOps :: "16 word \<Rightarrow> MsgBase MsgOps" where
  "headerOnlyOps msgID =
     \<lparr>decode = (\<lambda>pkt. (\<lparr>Header = PacketData.Header pkt\<rparr>, None)),
      genOutgoing = (\<lambda>out incoming. (out\<lparr>MsgBase.Header := replyHeader msgID incoming\<rparr>, None))\<rparr>"

definition sampleDeps :: Deps where
  "sampleDeps =
     \<lparr>debugLevel = False,
      jsonMarshal = (\<lambda>msg. None),
      FNV32 = fnv32a,
      gbkDecode = string_of_bytes,
      ops0001 = headerOnlyOps 0x0001,
      ops0002 = headerOnlyOps 0x0002,
      ops0003 = headerOnlyOps 0x0003,
      ops0102 =
        \<lparr>decode = (\<lambda>pkt. (\<lparr>Header = PacketData.Header pkt,
                              Msg0102.AuthCode = string_of_bytes (Body pkt),
                              Msg0102.IMEI = [], Msg0102.SoftwareVersion = []\<rparr>, None)),
         genOutgoing = (\<lambda>out incoming. (out\<lparr>MsgBase.Header := replyHeader 0x0102 incoming\<rparr>, None))\<rparr>,
      ops0200 =
        \<lparr>decode = (\<lambda>pkt. (\<lparr>Header = PacketData.Header pkt,
                              StatusSign = foldl (\<lambda>w b. push_bit 8 w OR ucast b) 0
                                             (take 4 (drop 4 (Body pkt)))\<rparr>, None)),
         genOutgoing = (\<lambda>out incoming. (out\<lparr>MsgBase.Header := replyHeader 0x0200 incoming\<rparr>, None))\<rparr>,
      ops8001 =
        \<lparr>decode = (\<lambda>pkt. (\<lparr>Header = PacketData.Header pkt, Msg8001.Result = ResultSuccess\<rparr>, None)),
         genOutgoing = (\<lambda>out incoming. (out\<lparr>MsgBase.Header := replyHeader 0x8001 incoming,
                                             Msg8001.Result := ResultSuccess\<rparr>, None))\<rparr>,
      ops8100 =
        \<lparr>decode = (\<lambda>pkt. (\<lparr>Header = PacketData.Header pkt, Msg8100.Result = ResSuccess,
                              Msg8100.AuthCode = string_of_bytes (Body pkt)\<rparr>, None)),
         genOutgoing = (\<lambda>out incoming. (out\<lparr>MsgBase.Header := replyHeader 0x8100 incoming\<rparr>, None))\<rparr>\<rparr>"

definition mkHeader :: "16 word \<Rightarrow> string \<Rightarrow> VersionType \<Rightarrow> 16 word \<Rightarrow> MsgHeader" where
  "mkHeader msgID phone ver len =
     \<lparr>MsgID = msgID, Attr = \<lparr>BodyLength = len, VersionDesc = ver\<rparr>,
      PhoneNumber = phone, SerialNumber = 1\<rparr>"

definition sampleSession :: Session where
  "sampleSession = \<lparr>Session.ID = ''s1'', Session.TransProto = TransProtoTCP, Session.Conn = 7\<rparr>"

definition sampleDevice :: Device where
  "sampleDevice =
     \<lparr>Device.ID = ''DEV0001'', Device.PlateNumber = ''A12345'',
      Device.PhoneNumber = ''013800138000'', Device.SessionID = ''s1'',
      Device.TransProto = TransProtoTCP, Device.Conn = 7, Device.Keepalive = Minute * 1,
      Device.Status = DeviceStatusOffline, Device.IMEI = [], Device.SoftwareVersion = []\<rparr>"

definition registered :: Services where
  "registered = Register (CacheDevice emptyServices sampleDevice) ''013800138000''"

text \<open>A register message of the given revision, its header consistent with a body of \<open>len\<close> bytes.\<close>

definition sample0100 :: "VersionType \<Rightarrow> 16 word \<Rightarrow> string \<Rightarrow> Msg0100" where
  "sample0100 ver len plate =
     \<lparr>Header = mkHeader 0x0100 ''013800138000'' ver len,
      ProvinceID = 0x002C, CityID = 0x0101, ManufacturerID = ''ABCDE'',
      DeviceMode = ''MODEL-A'', DeviceID = ''DEV0001'', PlateColor = 1,
      Msg0100.PlateNumber = plate\<rparr>"

text \<open>The body \<open>EncodeBody\<close> produces for a message, empty when it returns an error.\<close>

definition bodyOf :: "Msg0100 \<Rightarrow> byte list" where
  "bodyOf m = (case EncodeBody bytes_of_string m of Inl e \<Rightarrow> [] | Inr body \<Rightarrow> body)"

section \<open>Auxiliary facts\<close>

lemma errIs_None [simp]: "errIs None target = False"
  by (simp add: errIs_def)

lemma errIs_Some [simp]: "errIs (Some e) target = errors_Is e target"
  by (simp add: errIs_def)

lemma GetDeviceByPhone_absent:
  "devices st phone = None \<Longrightarrow> GetDeviceByPhone st phone = (None, Some ErrDeviceNotFound)"
  by (simp add: GetDeviceByPhone_def)

lemma GetDeviceByPhone_present:
  "devices st phone = Some d \<Longrightarrow> GetDeviceByPhone st phone = (Some d, None)"
  by (simp add: GetDeviceByPhone_def)

lemma fill_eq: "fill k b = b @ replicate k 0"
  by (induction k arbitrary: b) (simp_all add: replicate_app_Cons_same)

lemma Decode_header:
  "Decode g m0 pkt = Returned (m, e) \<Longrightarrow> MsgBase.Header m = PacketData.Header pkt"
  by (auto simp: Decode_def Let_def split: option.splits prod.splits Option.bind_splits)

section \<open>The dispatcher\<close>

text \<open>
  Claim C1.  For a packet whose message id is not a key of the dispatch table,
  \<open>Process\<close> does not return \<open>(nil, ErrMsgIDNotSupportted)\<close>: the table lookup
  yields a nil action pointer, and reading its field \<open>genData\<close> panics before the
  nil test of line 113 is reached.
\<close>

theorem Process_unknown_id_panics:
  assumes "options mp (MsgID (PacketData.Header pkt)) = None"
  shows "Process mp deps ctx st pkt = Panicked"
  using assms by (simp add: Process_def)

text \<open>The message id 0x0700 is not a key of the table.\<close>

theorem Process_unknown_id_panics_witness:
  "options NewJT808MsgProcessor (MsgID (PacketData.Header
       \<lparr>PacketData.Header = mkHeader 0x0700 ''013800138000'' Version2013 0, Body = []\<rparr>)) = None
   \<and> Process NewJT808MsgProcessor sampleDeps (Some sampleSession) emptyServices
       \<lparr>PacketData.Header = mkHeader 0x0700 ''013800138000'' Version2013 0, Body = []\<rparr> = Panicked"
  using Process_unknown_id_panics [of NewJT808MsgProcessor
      "\<lparr>PacketData.Header = mkHeader 0x0700 ''013800138000'' Version2013 0, Body = []\<rparr>"
      sampleDeps "Some sampleSession" emptyServices]
  by (simp add: NewJT808MsgProcessor_def initProcessOption_def mkHeader_def)




section \<open>The register message\<close>

lemma ReadWord_SomeD:
  "ReadWord pkt idx = Returned (w, j) \<Longrightarrow> j = idx + 2 \<and> 0 \<le> idx \<and> idx + 2 \<le> int (length pkt)
     \<and> w = push_bit 8 (ucast (pkt ! nat idx)) OR ucast (pkt ! nat (idx + 1))"
  by (simp add: ReadWord_def split: if_splits)

lemma ReadString_SomeD:
  "ReadString pkt idx n = Returned (s, j) \<Longrightarrow> j = idx + n \<and> 0 \<le> idx \<and> 0 \<le> n \<and> idx + n \<le> int (length pkt)
     \<and> s = string_of_bytes (take (nat n) (drop (nat idx) pkt))"
  by (simp add: ReadString_def split: if_splits)

lemma ReadByte_SomeD:
  "ReadByte pkt idx = Returned (b, j) \<Longrightarrow> j = idx + 1 \<and> 0 \<le> idx \<and> idx + 1 \<le> int (length pkt)
     \<and> b = pkt ! nat idx"
  by (simp add: ReadByte_def split: if_splits)

lemma ReadGBK_SomeD:
  "ReadGBK g pkt idx n = Returned (s, j) \<Longrightarrow> j = idx + n \<and> 0 \<le> idx \<and> 0 \<le> n \<and> idx + n \<le> int (length pkt)
     \<and> s = g (take (nat n) (drop (nat idx) pkt))"
  by (simp add: ReadGBK_def split: if_splits)

lemma fieldLens_2013:
  "VersionDesc (Attr h) = Version2013 \<Longrightarrow>
   fieldLens h idx = Some (5, (if uint (BodyLength (Attr h)) - idx > 33 then 20 else 8), 7,
                          (if uint (BodyLength (Attr h)) - idx > 33 then HeaderVersionDesc
                           else FreshVersion Version2011))"
  by (simp add: fieldLens_def Let_def)

lemma Decode_2013_mode:
  assumes "VersionDesc (Attr (PacketData.Header pkt)) = Version2013"
    and "Decode g m0 pkt = Returned (m, e)"
  shows "e = None \<and> DeviceMode m = TrimRightNUL (string_of_bytes (take
             (if uint (BodyLength (Attr (PacketData.Header pkt))) - 4 > 33 then 20 else 8)
             (drop 9 (Body pkt))))"
proof -
  from assms(2) obtain p i1 c i2 where
    r1: "ReadWord (Body pkt) 0 = Returned (p, i1)" and r2: "ReadWord (Body pkt) i1 = Returned (c, i2)"
    by (auto simp: Decode_def Let_def split: Option.bind_splits)
  have i1: "i1 = 2" using ReadWord_SomeD [OF r1] by simp
  have i2: "i2 = 4" using ReadWord_SomeD [OF r2] i1 by simp
  show ?thesis
  proof (cases "uint (BodyLength (Attr (PacketData.Header pkt))) - 4 > 33")
    case True
    with assms r1 r2 i1 i2 show ?thesis
      by (auto simp: Decode_def Let_def fieldLens_2013 split: Option.bind_splits
          dest!: ReadString_SomeD)
  next
    case False
    with assms r1 r2 i1 i2 show ?thesis
      by (auto simp: Decode_def Let_def fieldLens_2013 split: Option.bind_splits
          dest!: ReadString_SomeD)
  qed
qed

text \<open>The body of a 2011-format register message, as \<open>Encode\<close> lays it out: 31 bytes.\<close>

lemma bodyOf_2011:
  "bodyOf (sample0100 Version2011 31 ''A12345'') =
     [0x00, 0x2C, 0x01, 0x01, 0x41, 0x42, 0x43, 0x44, 0x45,
      0x4D, 0x4F, 0x44, 0x45, 0x4C, 0x2D, 0x41, 0x00,
      0x44, 0x45, 0x56, 0x30, 0x30, 0x30, 0x31, 0x01,
      0x41, 0x31, 0x32, 0x33, 0x34, 0x35]"
  by (simp add: bodyOf_def sample0100_def EncodeBody_def mkHeader_def padField_def
      bytes_of_string_def WriteWord_def WriteByte_def WriteGBK_def Let_def fill_eq)

lemma Decode_2011_body_under_2013_header:
  "Decode string_of_bytes zero0100
     \<lparr>PacketData.Header = mkHeader 0x0100 ''013800138000'' Version2013 31,
        Body = bodyOf (sample0100 Version2011 31 ''A12345'')\<rparr>
     = Returned (sample0100 Version2013 31 ''A12345'', None)"
  unfolding bodyOf_2011
  by (simp add: Decode_def zero0100_def sample0100_def mkHeader_def fieldLens_def
      ReadWord_def ReadString_def ReadByte_def ReadGBK_def TrimRightNUL_def string_of_bytes_def
      Let_def char_of_def bit_iff_odd)

text \<open>
  Claim C2.  For a packet whose header version is 2013, whatever \<open>Decode\<close> returns,
  the header of the message, which is the packet's header, is the header the packet
  came with: its version descriptor is still 2013.  With more than 33 bytes remaining
  after the province and city words the device model is read with length 20, otherwise
  with length 8; but in the second case the header is not rewritten to 2011: line 38
  re-points the local pointer \<open>ver\<close> at a fresh value and stores nothing through it.
\<close>

theorem Decode_2013_keeps_header_version:
  assumes "VersionDesc (Attr (PacketData.Header pkt)) = Version2013"
    and "Decode g m0 pkt = Returned (m, e)"
  shows "MsgBase.Header m = PacketData.Header pkt
       \<and> VersionDesc (Attr (MsgBase.Header m)) = Version2013
       \<and> e = None
       \<and> DeviceMode m = TrimRightNUL (string_of_bytes (take
             (if uint (BodyLength (Attr (PacketData.Header pkt))) - 4 > 33 then 20 else 8)
             (drop 9 (Body pkt))))"
  using Decode_header [OF assms(2)] Decode_2013_mode [OF assms] assms(1) by simp

text \<open>
  A 2011-format body of 31 bytes under a header whose version descriptor is 2013: the
  model is read with length 8, and the header's version descriptor stays 2013.
\<close>

theorem Decode_2013_keeps_header_version_witness:
  "Decode string_of_bytes zero0100
     \<lparr>PacketData.Header = mkHeader 0x0100 ''013800138000'' Version2013 31,
        Body = bodyOf (sample0100 Version2011 31 ''A12345'')\<rparr>
     = Returned (sample0100 Version2013 31 ''A12345'', None)
   \<and> VersionDesc (Attr (MsgBase.Header (sample0100 Version2013 31 ''A12345''))) = Version2013
   \<and> DeviceMode (sample0100 Version2013 31 ''A12345'') = ''MODEL-A''"
proof -
  have v: "VersionDesc (Attr (PacketData.Header
      \<lparr>PacketData.Header = mkHeader 0x0100 ''013800138000'' Version2013 31,
         Body = bodyOf (sample0100 Version2011 31 ''A12345'')\<rparr>)) = Version2013"
    by (simp add: mkHeader_def)
  have a: "VersionDesc (Attr (MsgBase.Header (sample0100 Version2013 31 ''A12345''))) = Version2013"
    using Decode_2013_keeps_header_version [OF v Decode_2011_body_under_2013_header] by blast
  have b: "DeviceMode (sample0100 Version2013 31 ''A12345'') = ''MODEL-A''"
    by (simp add: sample0100_def)
  show ?thesis
    using Decode_2011_body_under_2013_header a b by blast
qed

section \<open>Handlers\<close>

lemma registered_devices:
  "devices registered = [''013800138000'' \<mapsto> sampleDevice]"
  by (simp add: registered_def Register_def CacheDevice_def emptyServices_def sampleDevice_def)

lemma registered_rings: "rings registered = Map.empty"
  by (simp add: registered_def Register_def CacheDevice_def emptyServices_def)

lemma registered_timers: "timers registered = {''013800138000''}"
  by (simp add: registered_def Register_def CacheDevice_def emptyServices_def)

lemma registered_plates: "plates registered = [''A12345'' \<mapsto> ''013800138000'']"
  by (simp add: registered_def Register_def CacheDevice_def emptyServices_def sampleDevice_def)

text \<open>
  Claim C3.  For a 0x0200 location report whose phone number is in the registry, the
  handler returns nil and writes exactly one decoded fix, but to the ring the GIS
  cache holds under the device's id (line 298 passes \<open>device.ID\<close> to
  \<open>GetGisRingByPhone\<close>): when the device id differs from the phone number, the
  ring under the phone number is left as it was.  With ACC off the device is re-put
  with status sleeping.
\<close>

theorem handleMsg0200_writes_ring_of_device_id:
  assumes "Incoming data = M0200 msg"
    and "devices st (MsgHeader.PhoneNumber (MsgBase.Header msg)) = Some d"
    and "Device.ID d \<noteq> MsgHeader.PhoneNumber (MsgBase.Header msg)"
  shows "\<exists>st'. handleMsg0200 deps ctx st data = Returned (st', data, None)
       \<and> rings st' (MsgHeader.PhoneNumber (MsgBase.Header msg))
           = rings st (MsgHeader.PhoneNumber (MsgBase.Header msg))
       \<and> rings st' (Device.ID d)
           = Some (RingWrite (GetGisRingByPhone st (Device.ID d))
                     (GISMeta_Decode NewGISMeta (StatusSign msg)))
       \<and> devices st' = (if ACCStatus (GISMeta_Decode NewGISMeta (StatusSign msg)) = 0
                         then (devices st)(Device.PhoneNumber d \<mapsto> d\<lparr>Device.Status := DeviceStatusSleeping\<rparr>)
                         else devices st)"
  using assms
  by (simp add: handleMsg0200_def GetDeviceByPhone_present Let_def CacheDevice_def
      GetGisRingByPhone_def)

text \<open>
  The registered sample device (id DEV0001, phone 013800138000) reports a location
  with ACC off: the fix lands in the ring under DEV0001, and the cache holds no ring
  under the phone number.
\<close>

theorem handleMsg0200_writes_ring_of_device_id_witness:
  "\<exists>st'. handleMsg0200 sampleDeps (Some sampleSession) registered
            \<lparr>Incoming = M0200 \<lparr>Header = mkHeader 0x0200 ''013800138000'' Version2013 28, StatusSign = 2\<rparr>,
               Outgoing = Some (M8001 zero8001)\<rparr>
          = Returned (st', \<lparr>Incoming = M0200 \<lparr>Header = mkHeader 0x0200 ''013800138000'' Version2013 28, StatusSign = 2\<rparr>,
               Outgoing = Some (M8001 zero8001)\<rparr>, None)
       \<and> rings st' ''013800138000'' = None
       \<and> rings st' ''DEV0001'' = Some [\<lparr>ACCStatus = 0, StatusBits = 2\<rparr>]
       \<and> devices st' ''013800138000'' = Some (sampleDevice\<lparr>Device.Status := DeviceStatusSleeping\<rparr>)"
proof -
  let ?msg = "\<lparr>Header = mkHeader 0x0200 ''013800138000'' Version2013 28, StatusSign = 2\<rparr>"
  let ?data = "\<lparr>Incoming = M0200 ?msg, Outgoing = Some (M8001 zero8001)\<rparr>"
  have 1: "Incoming ?data = M0200 ?msg"
    by simp
  have 2: "devices registered (MsgHeader.PhoneNumber (MsgBase.Header ?msg)) = Some sampleDevice"
    by (simp add: registered_devices mkHeader_def)
  have 3: "Device.ID sampleDevice \<noteq> MsgHeader.PhoneNumber (MsgBase.Header ?msg)"
    by (simp add: sampleDevice_def mkHeader_def)
  have p: "MsgHeader.PhoneNumber (MsgBase.Header ?msg) = ''013800138000''"
    by (simp add: mkHeader_def)
  have i: "Device.ID sampleDevice = ''DEV0001''" "Device.PhoneNumber sampleDevice = ''013800138000''"
    by (simp_all add: sampleDevice_def)
  have g: "GISMeta_Decode NewGISMeta (StatusSign ?msg) = \<lparr>ACCStatus = 0, StatusBits = 2\<rparr>"
    by (simp add: GISMeta_Decode_def NewGISMeta_def)
  have r: "RingWrite (GetGisRingByPhone registered ''DEV0001'') \<lparr>ACCStatus = 0, StatusBits = 2\<rparr>
           = [\<lparr>ACCStatus = 0, StatusBits = 2\<rparr>]"
    by (simp add: GetGisRingByPhone_def registered_rings RingWrite_def gisRingCapacity_def)
  from handleMsg0200_writes_ring_of_device_id [OF 1 2 3, of sampleDeps "Some sampleSession"]
  obtain st' where
    "handleMsg0200 sampleDeps (Some sampleSession) registered ?data = Returned (st', ?data, None)"
    "rings st' ''013800138000'' = None"
    "rings st' ''DEV0001'' = Some [\<lparr>ACCStatus = 0, StatusBits = 2\<rparr>]"
    "devices st' ''013800138000'' = Some (sampleDevice\<lparr>Device.Status := DeviceStatusSleeping\<rparr>)"
    unfolding p i g r by (auto simp: registered_rings)
  then show ?thesis by blast
qed

text \<open>
  Claim C9.  When the header's phone number has no entry in the device registry, each
  of the handlers of 0x0002, 0x0003, 0x0102 and 0x0200 returns a non-nil error on
  which \<open>errors.Is(err, ErrDeviceNotFound)\<close> holds, and leaves the registry, the
  keep-alive timer, the GIS rings and the process data as they were.
\<close>

theorem handlers_DeviceNotFound_no_mutation:
  assumes "devices st (MsgHeader.PhoneNumber (GetHeader (Incoming data))) = None"
  shows "(\<forall>m. Incoming data = M0002 m \<longrightarrow>
            (\<exists>e. processMsg0002 deps ctx st data = Returned (st, data, Some e)
                 \<and> errors_Is e ErrDeviceNotFound))
       \<and> (\<forall>m. Incoming data = M0003 m \<longrightarrow>
            (\<exists>e. processMsg0003 deps ctx st data = Returned (st, data, Some e)
                 \<and> errors_Is e ErrDeviceNotFound))
       \<and> (\<forall>m. Incoming data = M0102 m \<longrightarrow>
            (\<exists>e. processMsg0102 deps ctx st data = Returned (st, data, Some e)
                 \<and> errors_Is e ErrDeviceNotFound))
       \<and> (\<forall>m. Incoming data = M0200 m \<longrightarrow>
            (\<exists>e. handleMsg0200 deps ctx st data = Returned (st, data, Some e)
                 \<and> errors_Is e ErrDeviceNotFound))"
  using assms
  by (auto simp: processMsg0002_def processMsg0003_def processMsg0102_def handleMsg0200_def
      GetDeviceByPhone_absent Wrapf_def)

text \<open>
  On a registry that holds only the sample device, a heartbeat, a deregistration, an
  authentication and a location report from the unknown phone number 013900139000.
\<close>

theorem handlers_DeviceNotFound_no_mutation_witness:
  "(\<exists>e. processMsg0002 sampleDeps (Some sampleSession) registered
           \<lparr>Incoming = M0002 \<lparr>Header = mkHeader 0x0002 ''013900139000'' Version2013 0\<rparr>,
              Outgoing = Some (M8001 zero8001)\<rparr>
         = Returned (registered,
           \<lparr>Incoming = M0002 \<lparr>Header = mkHeader 0x0002 ''013900139000'' Version2013 0\<rparr>,
              Outgoing = Some (M8001 zero8001)\<rparr>, Some e)
       \<and> errors_Is e ErrDeviceNotFound)
   \<and> (\<exists>e. processMsg0003 sampleDeps (Some sampleSession) registered
           \<lparr>Incoming = M0003 \<lparr>Header = mkHeader 0x0003 ''013900139000'' Version2013 0\<rparr>,
              Outgoing = Some (M8001 zero8001)\<rparr>
         = Returned (registered,
           \<lparr>Incoming = M0003 \<lparr>Header = mkHeader 0x0003 ''013900139000'' Version2013 0\<rparr>,
              Outgoing = Some (M8001 zero8001)\<rparr>, Some e)
       \<and> errors_Is e ErrDeviceNotFound)
   \<and> (\<exists>e. processMsg0102 sampleDeps (Some sampleSession) registered
           \<lparr>Incoming = M0102 (zero0102\<lparr>MsgBase.Header := mkHeader 0x0102 ''013900139000'' Version2013 0\<rparr>),
              Outgoing = Some (M8001 zero8001)\<rparr>
         = Returned (registered,
           \<lparr>Incoming = M0102 (zero0102\<lparr>MsgBase.Header := mkHeader 0x0102 ''013900139000'' Version2013 0\<rparr>),
              Outgoing = Some (M8001 zero8001)\<rparr>, Some e)
       \<and> errors_Is e ErrDeviceNotFound)
   \<and> (\<exists>e. handleMsg0200 sampleDeps (Some sampleSession) registered
           \<lparr>Incoming = M0200 (zero0200\<lparr>MsgBase.Header := mkHeader 0x0200 ''013900139000'' Version2013 28\<rparr>),
              Outgoing = Some (M8001 zero8001)\<rparr>
         = Returned (registered,
           \<lparr>Incoming = M0200 (zero0200\<lparr>MsgBase.Header := mkHeader 0x0200 ''013900139000'' Version2013 28\<rparr>),
              Outgoing = Some (M8001 zero8001)\<rparr>, Some e)
       \<and> errors_Is e ErrDeviceNotFound)"
proof -
  let ?d2 = "\<lparr>Incoming = M0002 \<lparr>Header = mkHeader 0x0002 ''013900139000'' Version2013 0\<rparr>,
              Outgoing = Some (M8001 zero8001)\<rparr>"
  let ?d3 = "\<lparr>Incoming = M0003 \<lparr>Header = mkHeader 0x0003 ''013900139000'' Version2013 0\<rparr>,
              Outgoing = Some (M8001 zero8001)\<rparr>"
  let ?d4 = "\<lparr>Incoming = M0102 (zero0102\<lparr>MsgBase.Header := mkHeader 0x0102 ''013900139000'' Version2013 0\<rparr>),
              Outgoing = Some (M8001 zero8001)\<rparr>"
  let ?d5 = "\<lparr>Incoming = M0200 (zero0200\<lparr>MsgBase.Header := mkHeader 0x0200 ''013900139000'' Version2013 28\<rparr>),
              Outgoing = Some (M8001 zero8001)\<rparr>"
  have h2: "devices registered (MsgHeader.PhoneNumber (GetHeader (Incoming ?d2))) = None"
    by (simp add: registered_devices mkHeader_def zero0102_def zero0200_def)
  have h3: "devices registered (MsgHeader.PhoneNumber (GetHeader (Incoming ?d3))) = None"
    by (simp add: registered_devices mkHeader_def zero0102_def zero0200_def)
  have h4: "devices registered (MsgHeader.PhoneNumber (GetHeader (Incoming ?d4))) = None"
    by (simp add: registered_devices mkHeader_def zero0102_def zero0200_def)
  have h5: "devices registered (MsgHeader.PhoneNumber (GetHeader (Incoming ?d5))) = None"
    by (simp add: registered_devices mkHeader_def zero0102_def zero0200_def)
  have c2: "\<exists>e. processMsg0002 sampleDeps (Some sampleSession) registered ?d2 = Returned (registered, ?d2, Some e)
      \<and> errors_Is e ErrDeviceNotFound"
    using handlers_DeviceNotFound_no_mutation [OF h2, of sampleDeps "Some sampleSession"] by simp
  have c3: "\<exists>e. processMsg0003 sampleDeps (Some sampleSession) registered ?d3 = Returned (registered, ?d3, Some e)
      \<and> errors_Is e ErrDeviceNotFound"
    using handlers_DeviceNotFound_no_mutation [OF h3, of sampleDeps "Some sampleSession"] by simp
  have c4: "\<exists>e. processMsg0102 sampleDeps (Some sampleSession) registered ?d4 = Returned (registered, ?d4, Some e)
      \<and> errors_Is e ErrDeviceNotFound"
    using handlers_DeviceNotFound_no_mutation [OF h4, of sampleDeps "Some sampleSession"] by simp
  have c5: "\<exists>e. handleMsg0200 sampleDeps (Some sampleSession) registered ?d5 = Returned (registered, ?d5, Some e)
      \<and> errors_Is e ErrDeviceNotFound"
    using handlers_DeviceNotFound_no_mutation [OF h5, of sampleDeps "Some sampleSession"] by simp
  show ?thesis
    using c2 c3 c4 c5 by (intro conjI)
qed

lemma genAuthCode_sampleDevice: "genAuthCode sampleDeps sampleDevice = ''2734743779''"
  by (simp add: genAuthCode_def sampleDeps_def sampleDevice_def fnv32a_def Itoa_def digits.simps
      digitTable_def)

text \<open>
  Claim C6.  For a 0x0100 register message with its 0x8100 reply, the handler tests
  the plate index first: a registered plate gives \<open>ResCarAlreadyRegister\<close>, also when
  the phone number is registered too; otherwise a registered phone number gives
  \<open>ResDeviceAlreadyRegister\<close>; in both cases nothing else changes.  Otherwise the
  handler creates a device with status offline, a keep-alive of 60 seconds and the
  session's transport and connection, stores the authentication code of that device
  in the reply, puts the device into the registry and registers the keep-alive timer
  of its phone number.
\<close>

theorem processMsg0100_precedence:
  assumes "Incoming data = M0100 msg" and "Outgoing data = Some (M8100 out)"
  shows "(HasPlate st (Msg0100.PlateNumber msg) \<longrightarrow>
            processMsg0100 deps ctx st data
              = Returned (st, data\<lparr>Outgoing := Some (M8100 (out\<lparr>Msg8100.Result := ResCarAlreadyRegister\<rparr>))\<rparr>, None))
       \<and> (\<not> HasPlate st (Msg0100.PlateNumber msg)
            \<and> HasPhone st (MsgHeader.PhoneNumber (MsgBase.Header msg)) \<longrightarrow>
            processMsg0100 deps ctx st data
              = Returned (st, data\<lparr>Outgoing := Some (M8100 (out\<lparr>Msg8100.Result := ResDeviceAlreadyRegister\<rparr>))\<rparr>, None))
       \<and> (\<forall>session device.
             \<not> HasPlate st (Msg0100.PlateNumber msg)
             \<and> \<not> HasPhone st (MsgHeader.PhoneNumber (MsgBase.Header msg))
             \<and> ctx = Some session
             \<and> device = \<lparr>Device.ID = DeviceID msg,
                          Device.PlateNumber = Msg0100.PlateNumber msg,
                          Device.PhoneNumber = MsgHeader.PhoneNumber (MsgBase.Header msg),
                          Device.SessionID = Session.ID session,
                          Device.TransProto = Session.TransProto session,
                          Device.Conn = Session.Conn session,
                          Device.Keepalive = 60 * Second,
                          Device.Status = DeviceStatusOffline,
                          Device.IMEI = [],
                          Device.SoftwareVersion = []\<rparr> \<longrightarrow>
             (\<exists>st'. processMsg0100 deps ctx st data
                      = Returned (st', data\<lparr>Outgoing := Some (M8100 (out\<lparr>Msg8100.AuthCode := genAuthCode deps device\<rparr>))\<rparr>, None)
                  \<and> st' = Register (CacheDevice st device) (MsgHeader.PhoneNumber (MsgBase.Header msg))
                  \<and> devices st' = (devices st)(MsgHeader.PhoneNumber (MsgBase.Header msg) \<mapsto> device)
                  \<and> plates st' = (plates st)(Msg0100.PlateNumber msg \<mapsto> MsgHeader.PhoneNumber (MsgBase.Header msg))
                  \<and> timers st' = insert (MsgHeader.PhoneNumber (MsgBase.Header msg)) (timers st)
                  \<and> rings st' = rings st))"
  using assms
  by (simp add: processMsg0100_def Let_def Minute_def GetTransProto_def CacheDevice_def Register_def)

text \<open>
  The sample device registers again (plate and phone both known), a second plate
  arrives from the same phone, and the sample device registers on an empty registry:
  the last leaves the state \<open>registered\<close> and the code 2734743779 in the reply.
\<close>

theorem processMsg0100_precedence_witness:
  "processMsg0100 sampleDeps (Some sampleSession) registered
       \<lparr>Incoming = M0100 (sample0100 Version2013 43 ''A12345''), Outgoing = Some (M8100 zero8100)\<rparr>
     = Returned (registered,
         \<lparr>Incoming = M0100 (sample0100 Version2013 43 ''A12345''),
            Outgoing = Some (M8100 (zero8100\<lparr>Msg8100.Result := ResCarAlreadyRegister\<rparr>))\<rparr>, None)
   \<and> processMsg0100 sampleDeps (Some sampleSession) registered
       \<lparr>Incoming = M0100 (sample0100 Version2013 43 ''B99999''), Outgoing = Some (M8100 zero8100)\<rparr>
     = Returned (registered,
         \<lparr>Incoming = M0100 (sample0100 Version2013 43 ''B99999''),
            Outgoing = Some (M8100 (zero8100\<lparr>Msg8100.Result := ResDeviceAlreadyRegister\<rparr>))\<rparr>, None)
   \<and> processMsg0100 sampleDeps (Some sampleSession) emptyServices
       \<lparr>Incoming = M0100 (sample0100 Version2013 43 ''A12345''), Outgoing = Some (M8100 zero8100)\<rparr>
     = Returned (registered,
         \<lparr>Incoming = M0100 (sample0100 Version2013 43 ''A12345''),
            Outgoing = Some (M8100 (zero8100\<lparr>Msg8100.AuthCode := ''2734743779''\<rparr>))\<rparr>, None)"
proof -
  let ?A = "sample0100 Version2013 43 ''A12345''"
  let ?B = "sample0100 Version2013 43 ''B99999''"
  let ?dA = "\<lparr>Incoming = M0100 ?A, Outgoing = Some (M8100 zero8100)\<rparr>"
  let ?dB = "\<lparr>Incoming = M0100 ?B, Outgoing = Some (M8100 zero8100)\<rparr>"
  have iA: "Incoming ?dA = M0100 ?A" and oA: "Outgoing ?dA = Some (M8100 zero8100)"
    by simp_all
  have iB: "Incoming ?dB = M0100 ?B" and oB: "Outgoing ?dB = Some (M8100 zero8100)"
    by simp_all
  have fA: "Msg0100.PlateNumber ?A = ''A12345''" "MsgHeader.PhoneNumber (MsgBase.Header ?A) = ''013800138000''"
    "DeviceID ?A = ''DEV0001''"
    by (simp_all add: sample0100_def mkHeader_def)
  have fB: "Msg0100.PlateNumber ?B = ''B99999''" "MsgHeader.PhoneNumber (MsgBase.Header ?B) = ''013800138000''"
    by (simp_all add: sample0100_def mkHeader_def)
  have reg: "HasPlate registered ''A12345''" "\<not> HasPlate registered ''B99999''"
    "HasPhone registered ''013800138000''"
    by (simp_all add: HasPlate_def HasPhone_def registered_plates registered_devices)
  have emp: "\<not> HasPlate emptyServices ''A12345''" "\<not> HasPhone emptyServices ''013800138000''"
    by (simp_all add: HasPlate_def HasPhone_def emptyServices_def)
  have dev: "\<lparr>Device.ID = ''DEV0001'', Device.PlateNumber = ''A12345'',
        Device.PhoneNumber = ''013800138000'', Device.SessionID = Session.ID sampleSession,
        Device.TransProto = Session.TransProto sampleSession, Device.Conn = Session.Conn sampleSession,
        Device.Keepalive = 60 * Second, Device.Status = DeviceStatusOffline,
        Device.IMEI = [], Device.SoftwareVersion = []\<rparr> = sampleDevice"
    by (simp add: sampleDevice_def sampleSession_def Minute_def)
  have 1: "processMsg0100 sampleDeps (Some sampleSession) registered ?dA
      = Returned (registered, ?dA\<lparr>Outgoing := Some (M8100 (zero8100\<lparr>Msg8100.Result := ResCarAlreadyRegister\<rparr>))\<rparr>, None)"
    using processMsg0100_precedence [OF iA oA, of registered sampleDeps "Some sampleSession"] reg
    unfolding fA by blast
  have 2: "processMsg0100 sampleDeps (Some sampleSession) registered ?dB
      = Returned (registered, ?dB\<lparr>Outgoing := Some (M8100 (zero8100\<lparr>Msg8100.Result := ResDeviceAlreadyRegister\<rparr>))\<rparr>, None)"
    using processMsg0100_precedence [OF iB oB, of registered sampleDeps "Some sampleSession"] reg
    unfolding fB by blast
  have 3: "processMsg0100 sampleDeps (Some sampleSession) emptyServices ?dA
      = Returned (Register (CacheDevice emptyServices sampleDevice) ''013800138000'',
          ?dA\<lparr>Outgoing := Some (M8100 (zero8100\<lparr>Msg8100.AuthCode := genAuthCode sampleDeps sampleDevice\<rparr>))\<rparr>, None)"
    using processMsg0100_precedence [OF iA oA, of emptyServices sampleDeps "Some sampleSession"] emp
    by (simp add: fA dev)
  show ?thesis
    using 1 2 3 by (simp add: genAuthCode_sampleDevice registered_def)
qed

lemma DelDeviceByPhone_devices:
  "devices (DelDeviceByPhone st p) = (devices st)(p := None)"
  by (auto simp: DelDeviceByPhone_def split: option.splits)

lemma DelDeviceByPhone_timers: "timers (DelDeviceByPhone st p) = timers st"
  by (simp add: DelDeviceByPhone_def split: option.splits)

lemma DelDeviceByPhone_rings: "rings (DelDeviceByPhone st p) = rings st"
  by (simp add: DelDeviceByPhone_def split: option.splits)

text \<open>
  Claim C7.  For a 0x0102 authenticate message with its 0x8001 reply, whose phone
  number is in the registry: the recomputed code is the decimal string of the
  unsigned value of the hash of device id, \<open>_\<close>, plate number, \<open>_\<close>, phone number.
  If the supplied code differs, the handler sets the reply's result to failure,
  cancels the keep-alive timer of the device's phone number and deletes the device;
  otherwise it re-puts the device with status online.  It returns nil in both cases.
\<close>

theorem processMsg0102_auth_check:
  assumes "Incoming data = M0102 msg" and "Outgoing data = Some (M8001 out)"
    and "devices st (MsgHeader.PhoneNumber (MsgBase.Header msg)) = Some d"
  shows "genAuthCode deps d
           = Itoa (uint (FNV32 deps (Device.ID d @ ''_'' @ Device.PlateNumber d @ ''_'' @ Device.PhoneNumber d)))
       \<and> (Msg0102.AuthCode msg \<noteq> genAuthCode deps d \<longrightarrow>
            (\<exists>st'. processMsg0102 deps ctx st data
                     = Returned (st', data\<lparr>Outgoing := Some (M8001 (out\<lparr>Msg8001.Result := ResultFail\<rparr>))\<rparr>, None)
                 \<and> st' = DelDeviceByPhone (Cancel st (Device.PhoneNumber d)) (Device.PhoneNumber d)
                 \<and> timers st' = timers st - {Device.PhoneNumber d}
                 \<and> devices st' = (devices st)(Device.PhoneNumber d := None)))
       \<and> (Msg0102.AuthCode msg = genAuthCode deps d \<longrightarrow>
            (\<exists>st'. processMsg0102 deps ctx st data = Returned (st', data, None)
                 \<and> st' = CacheDevice st (d\<lparr>Device.Status := DeviceStatusOnline\<rparr>)
                 \<and> devices st' = (devices st)(Device.PhoneNumber d \<mapsto> d\<lparr>Device.Status := DeviceStatusOnline\<rparr>)
                 \<and> timers st' = timers st))"
  using assms
  by (simp add: processMsg0102_def GetDeviceByPhone_present Let_def genAuthCode_def
      DelDeviceByPhone_devices DelDeviceByPhone_timers Cancel_def CacheDevice_def)

text \<open>
  The registered sample device authenticates with a wrong code, which empties the
  registry and the timer, and with its code 2734743779, which puts it online.
\<close>

theorem processMsg0102_auth_check_witness:
  "processMsg0102 sampleDeps (Some sampleSession) registered
       \<lparr>Incoming = M0102 (zero0102\<lparr>MsgBase.Header := mkHeader 0x0102 ''013800138000'' Version2013 4,
                                    Msg0102.AuthCode := ''0000''\<rparr>),
          Outgoing = Some (M8001 zero8001)\<rparr>
     = Returned (emptyServices,
         \<lparr>Incoming = M0102 (zero0102\<lparr>MsgBase.Header := mkHeader 0x0102 ''013800138000'' Version2013 4,
                                      Msg0102.AuthCode := ''0000''\<rparr>),
            Outgoing = Some (M8001 (zero8001\<lparr>Msg8001.Result := ResultFail\<rparr>))\<rparr>, None)
   \<and> processMsg0102 sampleDeps (Some sampleSession) registered
       \<lparr>Incoming = M0102 (zero0102\<lparr>MsgBase.Header := mkHeader 0x0102 ''013800138000'' Version2013 10,
                                    Msg0102.AuthCode := ''2734743779''\<rparr>),
          Outgoing = Some (M8001 zero8001)\<rparr>
     = Returned (CacheDevice registered (sampleDevice\<lparr>Device.Status := DeviceStatusOnline\<rparr>),
         \<lparr>Incoming = M0102 (zero0102\<lparr>MsgBase.Header := mkHeader 0x0102 ''013800138000'' Version2013 10,
                                      Msg0102.AuthCode := ''2734743779''\<rparr>),
            Outgoing = Some (M8001 zero8001)\<rparr>, None)"
proof -
  let ?bad = "zero0102\<lparr>MsgBase.Header := mkHeader 0x0102 ''013800138000'' Version2013 4,
                       Msg0102.AuthCode := ''0000''\<rparr>"
  let ?good = "zero0102\<lparr>MsgBase.Header := mkHeader 0x0102 ''013800138000'' Version2013 10,
                        Msg0102.AuthCode := ''2734743779''\<rparr>"
  let ?dbad = "\<lparr>Incoming = M0102 ?bad, Outgoing = Some (M8001 zero8001)\<rparr>"
  let ?dgood = "\<lparr>Incoming = M0102 ?good, Outgoing = Some (M8001 zero8001)\<rparr>"
  have ib: "Incoming ?dbad = M0102 ?bad" and ob: "Outgoing ?dbad = Some (M8001 zero8001)"
    by simp_all
  have ig: "Incoming ?dgood = M0102 ?good" and og: "Outgoing ?dgood = Some (M8001 zero8001)"
    by simp_all
  have pb: "devices registered (MsgHeader.PhoneNumber (MsgBase.Header ?bad)) = Some sampleDevice"
    by (simp add: registered_devices mkHeader_def)
  have pg: "devices registered (MsgHeader.PhoneNumber (MsgBase.Header ?good)) = Some sampleDevice"
    by (simp add: registered_devices mkHeader_def)
  have cb: "Msg0102.AuthCode ?bad \<noteq> genAuthCode sampleDeps sampleDevice"
    by (simp add: genAuthCode_sampleDevice)
  have cg: "Msg0102.AuthCode ?good = genAuthCode sampleDeps sampleDevice"
    by (simp add: genAuthCode_sampleDevice)
  have del: "DelDeviceByPhone (Cancel registered (Device.PhoneNumber sampleDevice))
               (Device.PhoneNumber sampleDevice) = emptyServices"
    by (simp add: DelDeviceByPhone_def Cancel_def registered_def Register_def CacheDevice_def
        emptyServices_def sampleDevice_def)
  have 1: "processMsg0102 sampleDeps (Some sampleSession) registered ?dbad
      = Returned (emptyServices, ?dbad\<lparr>Outgoing := Some (M8001 (zero8001\<lparr>Msg8001.Result := ResultFail\<rparr>))\<rparr>, None)"
    using processMsg0102_auth_check [OF ib ob pb, of sampleDeps "Some sampleSession"] cb del
    by simp
  have 2: "processMsg0102 sampleDeps (Some sampleSession) registered ?dgood
      = Returned (CacheDevice registered (sampleDevice\<lparr>Device.Status := DeviceStatusOnline\<rparr>), ?dgood, None)"
    using processMsg0102_auth_check [OF ig og pg, of sampleDeps "Some sampleSession"] cg
    by simp
  show ?thesis
    using 1 2 by simp
qed

end
